theory Spec2Isabelle
  imports Main
begin

section \<open>JavaScript built-ins used by the client\<close>

text \<open>
  Strings. The credentials are JavaScript strings in full: lists of UTF-16 code units
  (\<open>ustring\<close>), because \<open>btoa\<close> throws on a code unit above 255. Every other string
  (workspace, slug, sort key, message, JSON text) is a \<^typ>\<open>string\<close>, one
  \<^typ>\<open>char\<close> per code unit, all below 256; what the code does with those strings
  (concatenation, \<open>URLSearchParams\<close>, \<open>JSON.stringify\<close>) cannot throw, so this restriction
  leaves no failure out.

  Errors thrown by the engine or by a built-in carry the message Node.js gives them.
\<close>

type_synonym code_unit = nat

type_synonym ustring = "code_unit list"

text \<open>The code units of a string whose code units are all below 256.\<close>

definition units :: "string \<Rightarrow> ustring" where
  "units s = map of_char s"

subsection \<open>Numbers, \<open>Number.prototype.toString\<close> and interpolation of a number\<close>

text \<open>
  A JavaScript number is represented by the string that \<open>Number::toString\<close> gives for it:
  \<open>42\<close>, \<open>-7\<close>, \<open>0.5\<close>, \<open>1e+21\<close>, \<open>NaN\<close>, \<open>Infinity\<close>. That string determines the number
  up to the sign of zero (both zeros print as \<open>0\<close>); its digits come from the engine's
  shortest-round-trip conversion of a double, which is not part of this code. So
  \<open>n.toString()\<close> and \<open>`${n}`\<close> are that string, a number is falsy exactly when it prints
  as \<open>0\<close> or \<open>NaN\<close>, and \<open>JSON.stringify\<close> prints it unless it is \<open>NaN\<close> or an infinity.
\<close>

datatype number = Number string

fun number_toString :: "number \<Rightarrow> string" where
  "number_toString (Number s) = s"

definition falsy_number :: "number \<Rightarrow> bool" where
  "falsy_number n = (number_toString n = ''0'' \<or> number_toString n = ''NaN'')"

definition finite_number :: "number \<Rightarrow> bool" where
  "finite_number n =
     (number_toString n \<noteq> ''NaN'' \<and> number_toString n \<noteq> ''Infinity''
      \<and> number_toString n \<noteq> ''-Infinity'')"

text \<open>
  The status of a response is an unsigned short, and prints as its decimal numeral.
\<close>

definition digit_chars :: string where
  "digit_chars = ''0123456789''"

fun nat_toString :: "nat \<Rightarrow> string" where
  "nat_toString n =
     (if n < 10 then [digit_chars ! n]
      else nat_toString (n div 10) @ [digit_chars ! (n mod 10)])"

declare nat_toString.simps [simp del]

subsection \<open>\<open>Array.prototype.join\<close>\<close>

fun join :: "string \<Rightarrow> string list \<Rightarrow> string" where
  "join sep [] = []"
| "join sep [x] = x"
| "join sep (x # y # ys) = x @ sep @ join sep (y # ys)"

subsection \<open>Errors as values\<close>

text \<open>
  \<open>Error\<close>: \<open>new Error(message)\<close>. \<open>TypeError\<close> and \<open>SyntaxError\<close>: thrown by the engine, by
  \<open>fetch\<close> or by \<open>response.json()\<close>, with their message. \<open>DOMException name message\<close>:
  thrown by \<open>btoa\<close>.
\<close>

datatype js_error =
    Error string
  | TypeError string
  | SyntaxError string
  | DOMException string string

text \<open>\<open>and_then\<close>: the rest of a computation runs only if the first part did not throw.\<close>

definition and_then :: "js_error + 'a \<Rightarrow> ('a \<Rightarrow> js_error + 'b) \<Rightarrow> js_error + 'b" where
  "and_then r k = (case r of Inl e \<Rightarrow> Inl e | Inr x \<Rightarrow> k x)"

subsection \<open>\<open>btoa\<close>: Base64 of a string, which throws on a code unit above 255\<close>

definition b64_alphabet :: string where
  "b64_alphabet = ''ABCDEFGHIJKLMNOPQRSTUVWXYZabcdefghijklmnopqrstuvwxyz0123456789+/''"

definition b64_char :: "nat \<Rightarrow> char" where
  "b64_char n = b64_alphabet ! (n mod 64)"

fun btoa_bytes :: "nat list \<Rightarrow> string" where
  "btoa_bytes [] = []"
| "btoa_bytes [a] =
     [b64_char (a div 4), b64_char ((a mod 4) * 16), CHR ''='', CHR ''='']"
| "btoa_bytes [a, b] =
     [b64_char (a div 4), b64_char ((a mod 4) * 16 + b div 16),
      b64_char ((b mod 16) * 4), CHR ''='']"
| "btoa_bytes (a # b # c # rest) =
     [b64_char (a div 4), b64_char ((a mod 4) * 16 + b div 16),
      b64_char ((b mod 16) * 4 + c div 64), b64_char (c mod 64)] @ btoa_bytes rest"

definition latin1 :: "ustring \<Rightarrow> bool" where
  "latin1 s = list_all (\<lambda>c. c \<le> 255) s"

definition invalid_character :: js_error where
  "invalid_character = DOMException ''InvalidCharacterError'' ''Invalid character''"

definition btoa :: "ustring \<Rightarrow> js_error + string" where
  "btoa s = (if latin1 s then Inr (btoa_bytes s) else Inl invalid_character)"

subsection \<open>\<open>URLSearchParams\<close>: append and \<open>toString\<close>\<close>

text \<open>
  \<open>URLSearchParams.toString\<close> is the \<open>application/x-www-form-urlencoded\<close> serialiser: the
  name and the value are UTF-8 encoded, a space becomes \<open>+\<close>, the bytes of
  \<open>unreserved_chars\<close> stay, every other byte becomes \<open>%XX\<close> in upper-case hexadecimal.
\<close>

definition unreserved_chars :: string where
  "unreserved_chars =
     ''*-._0123456789ABCDEFGHIJKLMNOPQRSTUVWXYZabcdefghijklmnopqrstuvwxyz''"

definition hex_chars :: string where
  "hex_chars = ''0123456789ABCDEF''"

definition percent_byte :: "nat \<Rightarrow> string" where
  "percent_byte b = [CHR ''%'', hex_chars ! ((b div 16) mod 16), hex_chars ! (b mod 16)]"

definition urlencode_char :: "char \<Rightarrow> string" where
  "urlencode_char c =
     (let n = (of_char c :: nat) in
      if c \<in> set unreserved_chars then [c]
      else if c = CHR '' '' then ''+''
      else if n < 128 then percent_byte n
      else percent_byte (192 + n div 64) @ percent_byte (128 + n mod 64))"

definition urlencode :: "string \<Rightarrow> string" where
  "urlencode s = concat (map urlencode_char s)"

type_synonym URLSearchParams = "(string \<times> string) list"

definition append :: "URLSearchParams \<Rightarrow> string \<Rightarrow> string \<Rightarrow> URLSearchParams" where
  "append params k v = params @ [(k, v)]"

definition params_toString :: "URLSearchParams \<Rightarrow> string" where
  "params_toString params =
     join ''&'' (map (\<lambda>kv. urlencode (fst kv) @ ''='' @ urlencode (snd kv)) params)"

subsection \<open>JSON values and \<open>JSON.stringify\<close>\<close>

text \<open>
  A decoded JSON value. \<open>JObject\<close> lists the members of the object in the order in which
  JavaScript enumerates them, which is the order in which \<open>JSON.stringify\<close> writes them.
\<close>

datatype json =
    JNull
  | JBool bool
  | JNumber number
  | JString string
  | JArray "json list"
  | JObject "(string \<times> json) list"

definition lower_hex_chars :: string where
  "lower_hex_chars = ''0123456789abcdef''"

definition quote_char :: "char \<Rightarrow> string" where
  "quote_char c =
     (let n = (of_char c :: nat) in
      if c = CHR ''\"'' then [CHR 0x5C, CHR ''\"'']
      else if c = CHR 0x5C then [CHR 0x5C, CHR 0x5C]
      else if n = 8 then [CHR 0x5C, CHR ''b'']
      else if n = 9 then [CHR 0x5C, CHR ''t'']
      else if n = 10 then [CHR 0x5C, CHR ''n'']
      else if n = 12 then [CHR 0x5C, CHR ''f'']
      else if n = 13 then [CHR 0x5C, CHR ''r'']
      else if n < 32 then
        [CHR 0x5C, CHR ''u'', CHR ''0'', CHR ''0'',
         lower_hex_chars ! ((n div 16) mod 16), lower_hex_chars ! (n mod 16)]
      else [c])"

definition quote :: "string \<Rightarrow> string" where
  "quote s = CHR ''\"'' # concat (map quote_char s) @ [CHR ''\"'']"

fun json_stringify :: "json \<Rightarrow> string" where
  "json_stringify JNull = ''null''"
| "json_stringify (JBool b) = (if b then ''true'' else ''false'')"
| "json_stringify (JNumber n) = (if finite_number n then number_toString n else ''null'')"
| "json_stringify (JString s) = quote s"
| "json_stringify (JArray xs) = ''['' @ join '','' (map json_stringify xs) @ '']''"
| "json_stringify (JObject kvs) =
     ''{'' @ join '','' (map (\<lambda>kv. quote (fst kv) @ '':'' @ json_stringify (snd kv)) kvs) @ ''}''"


section \<open>The HTTP boundary\<close>

text \<open>
  \<open>fetch\<close> is the only contact with the outside. A call either obtains a response or
  obtains none; in the second case \<open>fetch\<close> rejects with a \<open>TypeError\<close> (WHATWG Fetch,
  "network error"). \<open>response.json()\<close> either yields the decoded body or rejects with a
  \<open>SyntaxError\<close>; \<open>decoded\<close> holds that outcome (\<open>Inl\<close> the message of the rejection).
  \<open>response.ok\<close> is true exactly for a status in the range 200 to 299.
\<close>

record http_response =
  status :: nat
  statusText :: string
  decoded :: "string + json"

definition ok :: "http_response \<Rightarrow> bool" where
  "ok response = (200 \<le> status response \<and> status response \<le> 299)"

datatype fetch_outcome =
    NetworkError string
  | Responded http_response

text \<open>The second argument of \<open>request\<close> (a \<open>RequestInit\<close>); an absent member is \<open>None\<close>.\<close>

record RequestInit =
  init_method :: "string option"
  init_body :: "string option"
  init_headers :: "(string \<rightharpoonup> string) option"

definition no_init :: RequestInit where
  "no_init = \<lparr>init_method = None, init_body = None, init_headers = None\<rparr>"

text \<open>
  What \<open>fetch\<close> is called with: the URL string as the client hands it over (\<open>fetch\<close>
  parses and normalises it afterwards), the verb (\<open>GET\<close> when the init has no \<open>method\<close>),
  the headers and the body.
\<close>

record http_request =
  url :: string
  verb :: string
  headers :: "string \<rightharpoonup> string"
  body :: "string option"

type_synonym network = "http_request \<Rightarrow> fetch_outcome"

text \<open>
  Every operation returns its result (\<open>Inl\<close> the value the promise rejects with, \<open>Inr\<close> the
  value it resolves to) together with the list of requests it put on the wire.
\<close>

type_synonym 'a io = "(js_error + 'a) \<times> http_request list"

section \<open>\<open>bitbucket.ts\<close>: the Bitbucket API client\<close>

definition BITBUCKET_API_BASE_URL :: string where
  "BITBUCKET_API_BASE_URL = ''https://api.bitbucket.org/2.0''"

record BitbucketAuth =
  username :: ustring
  password :: ustring

record BitbucketClient =
  auth :: "BitbucketAuth option"

text \<open>\<open>constructor(auth?: BitbucketAuth)\<close>\<close>

definition new_BitbucketClient :: "BitbucketAuth option \<Rightarrow> BitbucketClient" where
  "new_BitbucketClient a = \<lparr>auth = a\<rparr>"

definition getAuthHeader :: "BitbucketClient \<Rightarrow> js_error + (string \<rightharpoonup> string)" where
  "getAuthHeader this =
     (case auth this of
        None \<Rightarrow> Inr Map.empty
      | Some a \<Rightarrow>
          and_then (btoa (username a @ units '':'' @ password a)) (\<lambda>base64Credentials.
            Inr [''Authorization'' \<mapsto> ''Basic '' @ base64Credentials]))"

text \<open>
  \<open>request\<close> builds the headers, which calls \<open>getAuthHeader\<close>, before it calls \<open>fetch\<close>: when
  \<open>btoa\<close> throws, the call rejects and nothing is sent.
\<close>

definition fallback_errorData :: json where
  "fallback_errorData = JObject [(''message'', JString ''Unknown error'')]"

definition request :: "BitbucketClient \<Rightarrow> string \<Rightarrow> RequestInit \<Rightarrow> network \<Rightarrow> json io" where
  "request this endpoint options net =
     (let url' = BITBUCKET_API_BASE_URL @ endpoint
      in case getAuthHeader this of
           Inl e \<Rightarrow> (Inl e, [])
         | Inr authHeader \<Rightarrow>
          (let requestHeaders = [''Content-Type'' \<mapsto> ''application/json''] ++ authHeader;
               requestHeaders = (case init_headers options of
                                   None \<Rightarrow> requestHeaders
                                 | Some optionHeaders \<Rightarrow> requestHeaders ++ optionHeaders);
               sent = \<lparr>url = url',
                       verb = (case init_method options of None \<Rightarrow> ''GET'' | Some m \<Rightarrow> m),
                       headers = requestHeaders,
                       body = init_body options\<rparr>
           in (case net sent of
                 NetworkError m \<Rightarrow> Inl (TypeError m)
               | Responded response \<Rightarrow>
                   if \<not> ok response then
                     (let errorData = (case decoded response of
                                         Inl _ \<Rightarrow> fallback_errorData
                                       | Inr j \<Rightarrow> j)
                      in Inl (Error (''Bitbucket API error: '' @ nat_toString (status response)
                                     @ '' '' @ statusText response @ '', ''
                                     @ json_stringify errorData)))
                   else (case decoded response of
                           Inl m \<Rightarrow> Inl (SyntaxError m)
                         | Inr j \<Rightarrow> Inr j),
               [sent])))"

subsection \<open>Query parameters of the list operations\<close>

text \<open>
  \<open>if (options.x) params.append('x', ...)\<close>: the guard is JavaScript truthiness, so an
  undefined member, the empty string, the number 0 and \<open>NaN\<close> all skip the append.
\<close>

definition append_if_string :: "URLSearchParams \<Rightarrow> string \<Rightarrow> string option \<Rightarrow> URLSearchParams" where
  "append_if_string params k v =
     (case v of
        None \<Rightarrow> params
      | Some s \<Rightarrow> if s = [] then params else append params k s)"

definition append_if_number ::
    "URLSearchParams \<Rightarrow> string \<Rightarrow> number option \<Rightarrow> URLSearchParams" where
  "append_if_number params k v =
     (case v of
        None \<Rightarrow> params
      | Some n \<Rightarrow> if falsy_number n then params else append params k (number_toString n))"

text \<open>\<open>params.toString() ? `?${params.toString()}` : ''\<close>\<close>

definition queryString_of :: "URLSearchParams \<Rightarrow> string" where
  "queryString_of params =
     (if params_toString params \<noteq> [] then ''?'' @ params_toString params else [])"

datatype repo_role = Owner | Admin | Contributor | Member

fun role_name :: "repo_role \<Rightarrow> string" where
  "role_name Owner = ''owner''"
| "role_name Admin = ''admin''"
| "role_name Contributor = ''contributor''"
| "role_name Member = ''member''"

datatype pr_state = OPEN | MERGED | DECLINED | SUPERSEDED

fun state_name :: "pr_state \<Rightarrow> string" where
  "state_name OPEN = ''OPEN''"
| "state_name MERGED = ''MERGED''"
| "state_name DECLINED = ''DECLINED''"
| "state_name SUPERSEDED = ''SUPERSEDED''"

text \<open>
  The options objects. A caller may pass an object with more members than the parameter
  type names (the handlers of \<open>mcp.ts\<close> do); the record schemes below admit that, and the
  client reads only the members it names.
\<close>

record page_options =
  page :: "number option"
  pagelen :: "number option"

record repositories_options = page_options +
  role :: "repo_role option"

record pipelines_options = page_options +
  sort :: "string option"

record pull_requests_options = pipelines_options +
  state :: "pr_state option"

definition getRepositories_params :: "'a repositories_options_scheme \<Rightarrow> URLSearchParams" where
  "getRepositories_params options =
     (let params = [];
          params = append_if_string params ''role'' (map_option role_name (role options));
          params = append_if_number params ''page'' (page options);
          params = append_if_number params ''pagelen'' (pagelen options)
      in params)"

definition getRepositories ::
    "BitbucketClient \<Rightarrow> 'a repositories_options_scheme \<Rightarrow> network \<Rightarrow> json io" where
  "getRepositories this options net =
     (let queryString = queryString_of (getRepositories_params options)
      in request this (''/repositories'' @ queryString) no_init net)"

definition getRepository :: "BitbucketClient \<Rightarrow> string \<Rightarrow> string \<Rightarrow> network \<Rightarrow> json io" where
  "getRepository this workspace repoSlug net =
     request this (''/repositories/'' @ workspace @ ''/'' @ repoSlug) no_init net"

definition getPipelines_params :: "'a pipelines_options_scheme \<Rightarrow> URLSearchParams" where
  "getPipelines_params options =
     (let params = [];
          params = append_if_string params ''sort'' (sort options);
          params = append_if_number params ''page'' (page options);
          params = append_if_number params ''pagelen'' (pagelen options)
      in params)"

definition getPipelines ::
    "BitbucketClient \<Rightarrow> string \<Rightarrow> string \<Rightarrow> 'a pipelines_options_scheme \<Rightarrow> network \<Rightarrow> json io" where
  "getPipelines this workspace repoSlug options net =
     (let queryString = queryString_of (getPipelines_params options)
      in request this
           (''/repositories/'' @ workspace @ ''/'' @ repoSlug @ ''/pipelines'' @ queryString)
           no_init net)"

definition getPipeline ::
    "BitbucketClient \<Rightarrow> string \<Rightarrow> string \<Rightarrow> string \<Rightarrow> network \<Rightarrow> json io" where
  "getPipeline this workspace repoSlug pipelineUuid net =
     request this
       (''/repositories/'' @ workspace @ ''/'' @ repoSlug @ ''/pipelines/'' @ pipelineUuid)
       no_init net"

definition getPipelineSteps ::
    "BitbucketClient \<Rightarrow> string \<Rightarrow> string \<Rightarrow> string \<Rightarrow> network \<Rightarrow> json io" where
  "getPipelineSteps this workspace repoSlug pipelineUuid net =
     request this
       (''/repositories/'' @ workspace @ ''/'' @ repoSlug @ ''/pipelines/'' @ pipelineUuid
          @ ''/steps'')
       no_init net"

definition getPullRequests_params :: "'a pull_requests_options_scheme \<Rightarrow> URLSearchParams" where
  "getPullRequests_params options =
     (let params = [];
          params = append_if_string params ''state'' (map_option state_name (state options));
          params = append_if_string params ''sort'' (sort options);
          params = append_if_number params ''page'' (page options);
          params = append_if_number params ''pagelen'' (pagelen options)
      in params)"

definition getPullRequests ::
    "BitbucketClient \<Rightarrow> string \<Rightarrow> string \<Rightarrow> 'a pull_requests_options_scheme \<Rightarrow> network
       \<Rightarrow> json io" where
  "getPullRequests this workspace repoSlug options net =
     (let queryString = queryString_of (getPullRequests_params options)
      in request this
           (''/repositories/'' @ workspace @ ''/'' @ repoSlug @ ''/pullrequests'' @ queryString)
           no_init net)"

definition getPullRequest ::
    "BitbucketClient \<Rightarrow> string \<Rightarrow> string \<Rightarrow> number \<Rightarrow> network \<Rightarrow> json io" where
  "getPullRequest this workspace repoSlug pullRequestId net =
     request this
       (''/repositories/'' @ workspace @ ''/'' @ repoSlug @ ''/pullrequests/''
          @ number_toString pullRequestId)
       no_init net"


subsection \<open>Bodies of the mutating operations\<close>

text \<open>
  \<open>JSON.stringify(params)\<close> writes the members that are present, in the order of the
  object; an undefined member is left out. The members are taken in the order of the
  interface declarations, which is also the order of the handlers' schemas.
\<close>

definition opt_member :: "string \<Rightarrow> ('a \<Rightarrow> json) \<Rightarrow> 'a option \<Rightarrow> (string \<times> json) list" where
  "opt_member k f v = (case v of None \<Rightarrow> [] | Some x \<Rightarrow> [(k, f x)])"

record pr_endpoint =
  branch_name :: string
  repository_full_name :: "string option"

definition endpoint_json :: "pr_endpoint \<Rightarrow> json" where
  "endpoint_json e =
     JObject ([(''branch'', JObject [(''name'', JString (branch_name e))])]
              @ opt_member ''repository'' (\<lambda>n. JObject [(''full_name'', JString n)])
                  (repository_full_name e))"

definition reviewers_json :: "string list \<Rightarrow> json" where
  "reviewers_json uuids = JArray (map (\<lambda>u. JObject [(''uuid'', JString u)]) uuids)"

record CreatePullRequestParams =
  title :: string
  source :: pr_endpoint
  destination :: pr_endpoint
  description :: "string option"
  close_source_branch :: "bool option"
  reviewers :: "string list option"

definition create_json :: "CreatePullRequestParams \<Rightarrow> json" where
  "create_json p =
     JObject ([(''title'', JString (title p)),
               (''source'', endpoint_json (source p)),
               (''destination'', endpoint_json (destination p))]
              @ opt_member ''description'' JString (description p)
              @ opt_member ''close_source_branch'' JBool (close_source_branch p)
              @ opt_member ''reviewers'' reviewers_json (reviewers p))"

record UpdatePullRequestParams =
  upd_title :: "string option"
  upd_description :: "string option"
  upd_reviewers :: "string list option"
  upd_close_source_branch :: "bool option"

definition update_json :: "UpdatePullRequestParams \<Rightarrow> json" where
  "update_json p =
     JObject (opt_member ''title'' JString (upd_title p)
              @ opt_member ''description'' JString (upd_description p)
              @ opt_member ''reviewers'' reviewers_json (upd_reviewers p)
              @ opt_member ''close_source_branch'' JBool (upd_close_source_branch p))"

datatype merge_strategy_name = MergeCommit | Squash | FastForward

fun strategy_name :: "merge_strategy_name \<Rightarrow> string" where
  "strategy_name MergeCommit = ''merge_commit''"
| "strategy_name Squash = ''squash''"
| "strategy_name FastForward = ''fast_forward''"

record MergePullRequestParams =
  merge_strategy :: "merge_strategy_name option"
  message :: "string option"
  merge_close_source_branch :: "bool option"

definition merge_json :: "MergePullRequestParams \<Rightarrow> json" where
  "merge_json p =
     JObject (opt_member ''merge_strategy'' (\<lambda>m. JString (strategy_name m)) (merge_strategy p)
              @ opt_member ''message'' JString (message p)
              @ opt_member ''close_source_branch'' JBool (merge_close_source_branch p))"

definition createPullRequest ::
    "BitbucketClient \<Rightarrow> string \<Rightarrow> string \<Rightarrow> CreatePullRequestParams \<Rightarrow> network \<Rightarrow> json io" where
  "createPullRequest this workspace repoSlug params net =
     request this
       (''/repositories/'' @ workspace @ ''/'' @ repoSlug @ ''/pullrequests'')
       \<lparr>init_method = Some ''POST'',
        init_body = Some (json_stringify (create_json params)),
        init_headers = None\<rparr>
       net"

definition updatePullRequest ::
    "BitbucketClient \<Rightarrow> string \<Rightarrow> string \<Rightarrow> number \<Rightarrow> UpdatePullRequestParams \<Rightarrow> network
       \<Rightarrow> json io" where
  "updatePullRequest this workspace repoSlug pullRequestId params net =
     request this
       (''/repositories/'' @ workspace @ ''/'' @ repoSlug @ ''/pullrequests/''
          @ number_toString pullRequestId)
       \<lparr>init_method = Some ''PUT'',
        init_body = Some (json_stringify (update_json params)),
        init_headers = None\<rparr>
       net"

definition mergePullRequest ::
    "BitbucketClient \<Rightarrow> string \<Rightarrow> string \<Rightarrow> number \<Rightarrow> MergePullRequestParams \<Rightarrow> network
       \<Rightarrow> json io" where
  "mergePullRequest this workspace repoSlug pullRequestId params net =
     request this
       (''/repositories/'' @ workspace @ ''/'' @ repoSlug @ ''/pullrequests/''
          @ number_toString pullRequestId @ ''/merge'')
       \<lparr>init_method = Some ''POST'',
        init_body = Some (json_stringify (merge_json params)),
        init_headers = None\<rparr>
       net"

definition declinePullRequest ::
    "BitbucketClient \<Rightarrow> string \<Rightarrow> string \<Rightarrow> number \<Rightarrow> network \<Rightarrow> json io" where
  "declinePullRequest this workspace repoSlug pullRequestId net =
     request this
       (''/repositories/'' @ workspace @ ''/'' @ repoSlug @ ''/pullrequests/''
          @ number_toString pullRequestId @ ''/decline'')
       \<lparr>init_method = Some ''POST'', init_body = None, init_headers = None\<rparr>
       net"

subsection \<open>The public methods of \<open>BitbucketClient\<close>, as one type\<close>

text \<open>
  One constructor per public method of the class, with the method's arguments, so that a
  statement can range over every client operation.
\<close>

datatype client_call =
    CallGetRepositories repositories_options
  | CallGetRepository string string
  | CallGetPipelines string string pipelines_options
  | CallGetPipeline string string string
  | CallGetPipelineSteps string string string
  | CallGetPullRequests string string pull_requests_options
  | CallGetPullRequest string string number
  | CallCreatePullRequest string string CreatePullRequestParams
  | CallUpdatePullRequest string string number UpdatePullRequestParams
  | CallMergePullRequest string string number MergePullRequestParams
  | CallDeclinePullRequest string string number

fun invoke :: "BitbucketClient \<Rightarrow> client_call \<Rightarrow> network \<Rightarrow> json io" where
  "invoke this (CallGetRepositories opts) net = getRepositories this opts net"
| "invoke this (CallGetRepository w s) net = getRepository this w s net"
| "invoke this (CallGetPipelines w s opts) net = getPipelines this w s opts net"
| "invoke this (CallGetPipeline w s u) net = getPipeline this w s u net"
| "invoke this (CallGetPipelineSteps w s u) net = getPipelineSteps this w s u net"
| "invoke this (CallGetPullRequests w s opts) net = getPullRequests this w s opts net"
| "invoke this (CallGetPullRequest w s n) net = getPullRequest this w s n net"
| "invoke this (CallCreatePullRequest w s p) net = createPullRequest this w s p net"
| "invoke this (CallUpdatePullRequest w s n p) net = updatePullRequest this w s n p net"
| "invoke this (CallMergePullRequest w s n p) net = mergePullRequest this w s n p net"
| "invoke this (CallDeclinePullRequest w s n) net = declinePullRequest this w s n net"

section \<open>\<open>mcp.ts\<close>: the servers\<close>

text \<open>
  The repository holds three versions of \<open>createMCPServer\<close>:
  \<^item> the YAML server: \<open>McpServer.tool\<close> registrations, credentials given once to
    \<open>createMCPServer\<close>, results rendered with \<open>yamlStringify\<close>, thirteen advertised methods;
  \<^item> the JSON server: the same with \<open>JSON.stringify\<close> and eleven advertised methods;
  \<^item> the per-request server: \<open>Server.setRequestHandler\<close> registrations, credentials in
    every request's \<open>params.auth\<close>, the result returned as \<open>{ result }\<close>.
\<close>

subsection \<open>The registrations\<close>

text \<open>
  One descriptor per registration: the tool name (first argument of \<open>server.tool\<close>; absent
  for \<open>setRequestHandler\<close>), the literal of the schema's \<open>method\<close> member, and the member
  of the client that the callback invokes.
\<close>

record tool_descriptor =
  tool_name :: "string option"
  method_literal :: string
  client_member :: string

record mcp_server =
  advertised :: "string list"
  tools :: "tool_descriptor list"

definition tool :: "string \<Rightarrow> string \<Rightarrow> string \<Rightarrow> tool_descriptor" where
  "tool n m c = \<lparr>tool_name = Some n, method_literal = m, client_member = c\<rparr>"

definition setRequestHandler :: "string \<Rightarrow> string \<Rightarrow> tool_descriptor" where
  "setRequestHandler m c = \<lparr>tool_name = None, method_literal = m, client_member = c\<rparr>"

definition createMCPServer_yaml :: mcp_server where
  "createMCPServer_yaml =
     \<lparr>advertised =
        [''bitbucket/getRepositories'',
         ''bitbucket/getRepository'',
         ''bitbucket/getPipelines'',
         ''bitbucket/getPipeline'',
         ''bitbucket/getPipelineSteps'',
         ''bitbucket/getPullRequests'',
         ''bitbucket/getPullRequest'',
         ''bitbucket/createPullRequest'',
         ''bitbucket/updatePullRequest'',
         ''bitbucket/mergePullRequest'',
         ''bitbucket/declinePullRequest'',
         ''bitbucket/grantRepositoryAccess'',
         ''bitbucket/getWorkspaceMembers''],
      tools =
        [tool ''getRepositories'' ''bitbucket/getRepositories'' ''getRepositories'',
         tool ''getRepository'' ''bitbucket/getRepository'' ''getRepository'',
         tool ''getPipelines'' ''bitbucket/getPipelines'' ''getPipelines'',
         tool ''getPipeline'' ''bitbucket/getPipeline'' ''getPipeline'',
         tool ''getPipelineSteps'' ''bitbucket/getPipelineSteps'' ''getPipelineSteps'',
         tool ''getPullRequests'' ''bitbucket/getPullRequests'' ''getPullRequests'',
         tool ''getPullRequest'' ''bitbucket/getPullRequest'' ''getPullRequest'',
         tool ''createPullRequest'' ''bitbucket/createPullRequest'' ''createPullRequest'',
         tool ''updatePullRequest'' ''bitbucket/updatePullRequest'' ''updatePullRequest'',
         tool ''mergePullRequest'' ''bitbucket/mergePullRequest'' ''mergePullRequest'',
         tool ''declinePullRequest'' ''bitbucket/declinePullRequest'' ''declinePullRequest'',
         tool ''grantRepositoryAccess'' ''bitbucket/grantRepositoryAccess''
           ''grantRepositoryAccess'',
         tool ''getWorkspaceMembers'' ''bitbucket/getWorkspaceMembers''
           ''getWorkspaceMembers'']\<rparr>"

definition createMCPServer_json :: mcp_server where
  "createMCPServer_json =
     \<lparr>advertised =
        [''bitbucket/getRepositories'',
         ''bitbucket/getRepository'',
         ''bitbucket/getPipelines'',
         ''bitbucket/getPipeline'',
         ''bitbucket/getPipelineSteps'',
         ''bitbucket/getPullRequests'',
         ''bitbucket/getPullRequest'',
         ''bitbucket/createPullRequest'',
         ''bitbucket/updatePullRequest'',
         ''bitbucket/mergePullRequest'',
         ''bitbucket/declinePullRequest''],
      tools =
        [tool ''getRepositories'' ''bitbucket/getRepositories'' ''getRepositories'',
         tool ''getRepository'' ''bitbucket/getRepository'' ''getRepository'',
         tool ''getPipelines'' ''bitbucket/getPipelines'' ''getPipelines'',
         tool ''getPipeline'' ''bitbucket/getPipeline'' ''getPipeline'',
         tool ''getPipelineSteps'' ''bitbucket/getPipelineSteps'' ''getPipelineSteps'',
         tool ''getPullRequests'' ''bitbucket/getPullRequests'' ''getPullRequests'',
         tool ''getPullRequest'' ''bitbucket/getPullRequest'' ''getPullRequest'',
         tool ''createPullRequest'' ''bitbucket/createPullRequest'' ''createPullRequest'',
         tool ''updatePullRequest'' ''bitbucket/updatePullRequest'' ''updatePullRequest'',
         tool ''mergePullRequest'' ''bitbucket/mergePullRequest'' ''mergePullRequest'',
         tool ''declinePullRequest'' ''bitbucket/declinePullRequest''
           ''declinePullRequest'']\<rparr>"

definition createMCPServer_perRequest :: mcp_server where
  "createMCPServer_perRequest =
     \<lparr>advertised =
        [''bitbucket/getRepositories'',
         ''bitbucket/getRepository'',
         ''bitbucket/getPipelines'',
         ''bitbucket/getPipeline'',
         ''bitbucket/getPipelineSteps'',
         ''bitbucket/getPullRequests'',
         ''bitbucket/getPullRequest'',
         ''bitbucket/createPullRequest'',
         ''bitbucket/updatePullRequest'',
         ''bitbucket/mergePullRequest'',
         ''bitbucket/declinePullRequest''],
      tools =
        [setRequestHandler ''bitbucket/getRepositories'' ''getRepositories'',
         setRequestHandler ''bitbucket/getRepository'' ''getRepository'',
         setRequestHandler ''bitbucket/getPipelines'' ''getPipelines'',
         setRequestHandler ''bitbucket/getPipeline'' ''getPipeline'',
         setRequestHandler ''bitbucket/getPipelineSteps'' ''getPipelineSteps'',
         setRequestHandler ''bitbucket/getPullRequests'' ''getPullRequests'',
         setRequestHandler ''bitbucket/getPullRequest'' ''getPullRequest'',
         setRequestHandler ''bitbucket/createPullRequest'' ''createPullRequest'',
         setRequestHandler ''bitbucket/updatePullRequest'' ''updatePullRequest'',
         setRequestHandler ''bitbucket/mergePullRequest'' ''mergePullRequest'',
         setRequestHandler ''bitbucket/declinePullRequest'' ''declinePullRequest'']\<rparr>"

text \<open>The members that class \<open>BitbucketClient\<close> of \<open>bitbucket.ts\<close> declares as public methods.\<close>

definition client_methods :: "string list" where
  "client_methods =
     [''getRepositories'', ''getRepository'', ''getPipelines'', ''getPipeline'',
      ''getPipelineSteps'', ''getPullRequests'', ''getPullRequest'', ''createPullRequest'',
      ''updatePullRequest'', ''mergePullRequest'', ''declinePullRequest'']"

text \<open>
  The Operation Catalog in the specification's words: the eleven rows of its operation
  table (list repositories, get repository, list pipelines, get pipeline, list pipeline
  steps, list pull requests, get pull request, create, update, merge and decline pull
  request), under their method names \<open>bitbucket/<verb><Noun>\<close>.
\<close>

definition operation_catalog :: "string list" where
  "operation_catalog =
     [''bitbucket/getRepositories'',
      ''bitbucket/getRepository'',
      ''bitbucket/getPipelines'',
      ''bitbucket/getPipeline'',
      ''bitbucket/getPipelineSteps'',
      ''bitbucket/getPullRequests'',
      ''bitbucket/getPullRequest'',
      ''bitbucket/createPullRequest'',
      ''bitbucket/updatePullRequest'',
      ''bitbucket/mergePullRequest'',
      ''bitbucket/declinePullRequest'']"

subsection \<open>Validated requests and response envelopes\<close>

text \<open>
  \<open>request.params\<close> after validation against the schema of its registration: a value of
  this type is a valid payload. The schemas of the per-request server have one more
  member, \<open>auth\<close>, which its handler receives as a separate argument below, and its
  \<open>getRepositories\<close> schema has no \<open>workspace\<close>.
\<close>

datatype permission = ReadPermission | WritePermission | AdminPermission

datatype tool_request =
    GetRepositories "string option" "repo_role option" "number option" "number option"
  | GetRepository string string
  | GetPipelines string string "string option" "number option" "number option"
  | GetPipeline string string string
  | GetPipelineSteps string string string
  | GetPullRequests string string "pr_state option" "string option" "number option" "number option"
  | GetPullRequest string string number
  | CreatePullRequest string string CreatePullRequestParams
  | UpdatePullRequest string string number UpdatePullRequestParams
  | MergePullRequest string string number MergePullRequestParams
  | DeclinePullRequest string string number
  | GrantRepositoryAccess string string string permission
  | GetWorkspaceMembers string "string option" "number option" "number option"

fun method_of :: "tool_request \<Rightarrow> string" where
  "method_of (GetRepositories _ _ _ _) = ''bitbucket/getRepositories''"
| "method_of (GetRepository _ _) = ''bitbucket/getRepository''"
| "method_of (GetPipelines _ _ _ _ _) = ''bitbucket/getPipelines''"
| "method_of (GetPipeline _ _ _) = ''bitbucket/getPipeline''"
| "method_of (GetPipelineSteps _ _ _) = ''bitbucket/getPipelineSteps''"
| "method_of (GetPullRequests _ _ _ _ _ _) = ''bitbucket/getPullRequests''"
| "method_of (GetPullRequest _ _ _) = ''bitbucket/getPullRequest''"
| "method_of (CreatePullRequest _ _ _) = ''bitbucket/createPullRequest''"
| "method_of (UpdatePullRequest _ _ _ _) = ''bitbucket/updatePullRequest''"
| "method_of (MergePullRequest _ _ _ _) = ''bitbucket/mergePullRequest''"
| "method_of (DeclinePullRequest _ _ _) = ''bitbucket/declinePullRequest''"
| "method_of (GrantRepositoryAccess _ _ _ _) = ''bitbucket/grantRepositoryAccess''"
| "method_of (GetWorkspaceMembers _ _ _ _) = ''bitbucket/getWorkspaceMembers''"

text \<open>\<open>{ content: [{ type: "text", text: ... }] }\<close> and \<open>{ result }\<close>\<close>

record content_part =
  part_type :: string
  part_text :: string

record tool_result =
  content :: "content_part list"

definition text_result :: "string \<Rightarrow> tool_result" where
  "text_result s = \<lparr>content = [\<lparr>part_type = ''text'', part_text = s\<rparr>]\<rparr>"

record result_envelope =
  result :: json

text \<open>The handlers' options object for \<open>getRepositories\<close> carries a \<open>workspace\<close> member too.\<close>

record repositories_request_options = repositories_options +
  workspace :: "string option"

subsection \<open>Sequencing\<close>

text \<open>\<open>then_io\<close>: \<open>const x = await m; ...\<close> where the rest does no I/O.\<close>

definition then_io :: "'a io \<Rightarrow> ('a \<Rightarrow> js_error + 'b) \<Rightarrow> 'b io" where
  "then_io m k = (and_then (fst m) k, snd m)"

fun map_throwing :: "('a \<Rightarrow> js_error + 'b) \<Rightarrow> 'a list \<Rightarrow> js_error + 'b list" where
  "map_throwing f [] = Inr []"
| "map_throwing f (x # xs) =
     and_then (f x) (\<lambda>y. and_then (map_throwing f xs) (\<lambda>ys. Inr (y # ys)))"

subsection \<open>Member access on decoded JSON\<close>

text \<open>
  \<open>v.k\<close> for the member names the handlers read. On an object it is the member of that
  name or \<open>undefined\<close> (\<open>None\<close>); a boolean, number, string or array has no member of these
  names; on \<open>null\<close> and \<open>undefined\<close> the access throws a \<open>TypeError\<close> whose message quotes
  the member name. An object lists each of its keys once.
\<close>

fun get_member :: "json \<Rightarrow> string \<Rightarrow> json option" where
  "get_member (JObject kvs) k = map_of kvs k"
| "get_member _ k = None"

definition cannot_read :: "string \<Rightarrow> string \<Rightarrow> js_error" where
  "cannot_read what k =
     TypeError (''Cannot read properties of '' @ what @ '' (reading '' @ [CHR 0x27] @ k
                @ [CHR 0x27] @ '')'')"

definition read_member :: "json option \<Rightarrow> string \<Rightarrow> js_error + json option" where
  "read_member v k =
     (case v of
        None \<Rightarrow> Inl (cannot_read ''undefined'' k)
      | Some JNull \<Rightarrow> Inl (cannot_read ''null'' k)
      | Some j \<Rightarrow> Inr (get_member j k))"

subsection \<open>The callbacks of the YAML and JSON servers\<close>

text \<open>
  The callback of \<open>getRepositories\<close> does not render the client's result but
  \<open>result.values.map((repo) => ({ name: repo.name, full_name: repo.full_name,
  description: repo.description, href: repo.links.html.href }))\<close>. A member whose value is
  \<open>undefined\<close> is left out by both renderers.
\<close>

definition repository_summary :: "json \<Rightarrow> js_error + json" where
  "repository_summary repo =
     and_then (read_member (Some repo) ''name'') (\<lambda>name.
     and_then (read_member (Some repo) ''full_name'') (\<lambda>full_name.
     and_then (read_member (Some repo) ''description'') (\<lambda>description.
     and_then (read_member (Some repo) ''links'') (\<lambda>links.
     and_then (read_member links ''html'') (\<lambda>html.
     and_then (read_member html ''href'') (\<lambda>href.
       Inr (JObject (opt_member ''name'' id name
                     @ opt_member ''full_name'' id full_name
                     @ opt_member ''description'' id description
                     @ opt_member ''href'' id href))))))))"

definition repositories_output :: "json \<Rightarrow> js_error + json" where
  "repositories_output res =
     (case res of
        JArray _ \<Rightarrow> Inl (TypeError ''result.values.map is not a function'')
      | _ \<Rightarrow>
        and_then (read_member (Some res) ''values'') (\<lambda>values.
          case values of
            None \<Rightarrow> Inl (cannot_read ''undefined'' ''map'')
          | Some JNull \<Rightarrow> Inl (cannot_read ''null'' ''map'')
          | Some (JArray repos) \<Rightarrow>
              and_then (map_throwing repository_summary repos) (\<lambda>output. Inr (JArray output))
          | Some _ \<Rightarrow> Inl (TypeError ''result.values.map is not a function'')))"

text \<open>
  \<open>stringify\<close> is the renderer: \<open>yamlStringify\<close> with the server's \<open>yamlOptions\<close> (a
  library function, taken as a parameter) or \<open>JSON.stringify\<close>. The last two callbacks
  invoke members that class \<open>BitbucketClient\<close> of \<open>bitbucket.ts\<close> does not have, so the call
  throws before any request is made.
\<close>

fun tool_callback ::
    "(json \<Rightarrow> string) \<Rightarrow> BitbucketClient \<Rightarrow> tool_request \<Rightarrow> network \<Rightarrow> tool_result io" where
  "tool_callback stringify client (GetRepositories ws rl pg pl) net =
     then_io
       (getRepositories client \<lparr>page = pg, pagelen = pl, role = rl, workspace = ws\<rparr> net)
       (\<lambda>res. and_then (repositories_output res)
                 (\<lambda>output. Inr (text_result (stringify output))))"
| "tool_callback stringify client (GetRepository ws slug) net =
     then_io (getRepository client ws slug net)
       (\<lambda>res. Inr (text_result (stringify res)))"
| "tool_callback stringify client (GetPipelines ws slug srt pg pl) net =
     then_io (getPipelines client ws slug \<lparr>page = pg, pagelen = pl, sort = srt\<rparr> net)
       (\<lambda>res. Inr (text_result (stringify res)))"
| "tool_callback stringify client (GetPipeline ws slug uuid) net =
     then_io (getPipeline client ws slug uuid net)
       (\<lambda>res. Inr (text_result (stringify res)))"
| "tool_callback stringify client (GetPipelineSteps ws slug uuid) net =
     then_io (getPipelineSteps client ws slug uuid net)
       (\<lambda>res. Inr (text_result (stringify res)))"
| "tool_callback stringify client (GetPullRequests ws slug st srt pg pl) net =
     then_io
       (getPullRequests client ws slug \<lparr>page = pg, pagelen = pl, sort = srt, state = st\<rparr> net)
       (\<lambda>res. Inr (text_result (stringify res)))"
| "tool_callback stringify client (GetPullRequest ws slug n) net =
     then_io (getPullRequest client ws slug n net)
       (\<lambda>res. Inr (text_result (stringify res)))"
| "tool_callback stringify client (CreatePullRequest ws slug createParams) net =
     then_io (createPullRequest client ws slug createParams net)
       (\<lambda>res. Inr (text_result (stringify res)))"
| "tool_callback stringify client (UpdatePullRequest ws slug n updateParams) net =
     then_io (updatePullRequest client ws slug n updateParams net)
       (\<lambda>res. Inr (text_result (stringify res)))"
| "tool_callback stringify client (MergePullRequest ws slug n mergeParams) net =
     then_io (mergePullRequest client ws slug n mergeParams net)
       (\<lambda>res. Inr (text_result (stringify res)))"
| "tool_callback stringify client (DeclinePullRequest ws slug n) net =
     then_io (declinePullRequest client ws slug n net)
       (\<lambda>res. Inr (text_result (stringify res)))"
| "tool_callback stringify client (GrantRepositoryAccess ws slug account perm) net =
     (Inl (TypeError ''client.grantRepositoryAccess is not a function''), [])"
| "tool_callback stringify client (GetWorkspaceMembers ws q pg pl) net =
     (Inl (TypeError ''client.getWorkspaceMembers is not a function''), [])"

text \<open>
  A request to a server, with the credentials the server was created with. \<open>None\<close>: the
  server has no registration for the request's method.
\<close>

definition handle_yaml ::
    "(json \<Rightarrow> string) \<Rightarrow> BitbucketAuth \<Rightarrow> tool_request \<Rightarrow> network \<Rightarrow> tool_result io option" where
  "handle_yaml yamlStringify a req net =
     Some (tool_callback yamlStringify (new_BitbucketClient (Some a)) req net)"

definition handle_json ::
    "BitbucketAuth \<Rightarrow> tool_request \<Rightarrow> network \<Rightarrow> tool_result io option" where
  "handle_json a req net =
     (case req of
        GrantRepositoryAccess _ _ _ _ \<Rightarrow> None
      | GetWorkspaceMembers _ _ _ _ \<Rightarrow> None
      | _ \<Rightarrow> Some (tool_callback json_stringify (new_BitbucketClient (Some a)) req net))"

subsection \<open>The handlers of the per-request server\<close>

text \<open>
  Every handler builds a client from \<open>request.params.auth\<close> (the first argument here),
  calls it and returns \<open>{ result }\<close>.
\<close>

fun handle_perRequest ::
    "BitbucketAuth \<Rightarrow> tool_request \<Rightarrow> network \<Rightarrow> result_envelope io option" where
  "handle_perRequest a (GetRepositories ws rl pg pl) net =
     Some (then_io
       (getRepositories (new_BitbucketClient (Some a)) \<lparr>page = pg, pagelen = pl, role = rl\<rparr> net)
       (\<lambda>res. Inr \<lparr>result = res\<rparr>))"
| "handle_perRequest a (GetRepository ws slug) net =
     Some (then_io (getRepository (new_BitbucketClient (Some a)) ws slug net)
       (\<lambda>res. Inr \<lparr>result = res\<rparr>))"
| "handle_perRequest a (GetPipelines ws slug srt pg pl) net =
     Some (then_io
       (getPipelines (new_BitbucketClient (Some a)) ws slug
          \<lparr>page = pg, pagelen = pl, sort = srt\<rparr> net)
       (\<lambda>res. Inr \<lparr>result = res\<rparr>))"
| "handle_perRequest a (GetPipeline ws slug uuid) net =
     Some (then_io (getPipeline (new_BitbucketClient (Some a)) ws slug uuid net)
       (\<lambda>res. Inr \<lparr>result = res\<rparr>))"
| "handle_perRequest a (GetPipelineSteps ws slug uuid) net =
     Some (then_io (getPipelineSteps (new_BitbucketClient (Some a)) ws slug uuid net)
       (\<lambda>res. Inr \<lparr>result = res\<rparr>))"
| "handle_perRequest a (GetPullRequests ws slug st srt pg pl) net =
     Some (then_io
       (getPullRequests (new_BitbucketClient (Some a)) ws slug
          \<lparr>page = pg, pagelen = pl, sort = srt, state = st\<rparr> net)
       (\<lambda>res. Inr \<lparr>result = res\<rparr>))"
| "handle_perRequest a (GetPullRequest ws slug n) net =
     Some (then_io (getPullRequest (new_BitbucketClient (Some a)) ws slug n net)
       (\<lambda>res. Inr \<lparr>result = res\<rparr>))"
| "handle_perRequest a (CreatePullRequest ws slug createParams) net =
     Some (then_io (createPullRequest (new_BitbucketClient (Some a)) ws slug createParams net)
       (\<lambda>res. Inr \<lparr>result = res\<rparr>))"
| "handle_perRequest a (UpdatePullRequest ws slug n updateParams) net =
     Some (then_io (updatePullRequest (new_BitbucketClient (Some a)) ws slug n updateParams net)
       (\<lambda>res. Inr \<lparr>result = res\<rparr>))"
| "handle_perRequest a (MergePullRequest ws slug n mergeParams) net =
     Some (then_io (mergePullRequest (new_BitbucketClient (Some a)) ws slug n mergeParams net)
       (\<lambda>res. Inr \<lparr>result = res\<rparr>))"
| "handle_perRequest a (DeclinePullRequest ws slug n) net =
     Some (then_io (declinePullRequest (new_BitbucketClient (Some a)) ws slug n net)
       (\<lambda>res. Inr \<lparr>result = res\<rparr>))"
| "handle_perRequest a (GrantRepositoryAccess ws slug account perm) net = None"
| "handle_perRequest a (GetWorkspaceMembers ws q pg pl) net = None"

section \<open>Reading a query string back\<close>

text \<open>
  The keys of a query string, as its receiver finds them: what follows the leading \<open>?\<close> is
  split at every \<open>&\<close>, and the key of a part is what stands before its first \<open>=\<close>.
  \<open>supplied k v\<close> lists the key \<open>k\<close> when the optional member \<open>v\<close> was given a defined value.
\<close>

fun split_at :: "char \<Rightarrow> string \<Rightarrow> string list" where
  "split_at d [] = [[]]"
| "split_at d (c # cs) =
     (if c = d then [] # split_at d cs
      else (case split_at d cs of
              [] \<Rightarrow> [[c]]
            | w # ws \<Rightarrow> (c # w) # ws))"

definition query_keys :: "string \<Rightarrow> string list" where
  "query_keys q =
     (case q of
        [] \<Rightarrow> []
      | c # cs \<Rightarrow>
          if c = CHR ''?'' then map (takeWhile (\<lambda>x. x \<noteq> CHR ''='')) (split_at CHR ''&'' cs)
          else [])"

definition supplied :: "string \<Rightarrow> 'a option \<Rightarrow> string list" where
  "supplied k v = (case v of None \<Rightarrow> [] | Some _ \<Rightarrow> [k])"

section \<open>Credentials that \<open>btoa\<close> accepts\<close>

text \<open>
  Credentials are encodable when \<open>username:password\<close> has no code unit above 255, so that
  \<open>btoa\<close> does not throw. A client can authorize when it holds no credentials or
  encodable ones.
\<close>

definition encodable :: "BitbucketAuth \<Rightarrow> bool" where
  "encodable a = latin1 (username a @ units '':'' @ password a)"

definition can_authorize :: "BitbucketClient \<Rightarrow> bool" where
  "can_authorize this = (case auth this of None \<Rightarrow> True | Some a \<Rightarrow> encodable a)"

section \<open>The client sends at most one request and settles on its outcome\<close>

lemmas client_defs = getRepositories_def getRepository_def getPipelines_def getPipeline_def
  getPipelineSteps_def getPullRequests_def getPullRequest_def createPullRequest_def
  updatePullRequest_def mergePullRequest_def declinePullRequest_def

lemmas server_defs = createMCPServer_yaml_def createMCPServer_json_def
  createMCPServer_perRequest_def tool_def setRequestHandler_def

lemma getAuthHeader_value:
  "getAuthHeader this =
     (case auth this of
        None \<Rightarrow> Inr Map.empty
      | Some a \<Rightarrow>
          if latin1 (username a @ units '':'' @ password a)
          then Inr [''Authorization'' \<mapsto>
                      ''Basic '' @ btoa_bytes (username a @ units '':'' @ password a)]
          else Inl invalid_character)"
  by (simp add: getAuthHeader_def btoa_def and_then_def split: option.splits)

lemma getAuthHeader_throws:
  "\<not> can_authorize this \<Longrightarrow>
   getAuthHeader this = Inl invalid_character"
  by (cases "auth this") (auto simp: getAuthHeader_value can_authorize_def encodable_def)

lemma getAuthHeader_returns:
  "can_authorize this \<Longrightarrow> \<exists>h. getAuthHeader this = Inr h"
  by (cases "auth this") (auto simp: getAuthHeader_value can_authorize_def encodable_def)

lemma request_cannot_authorize:
  "\<not> can_authorize this \<Longrightarrow>
   request this endpoint options net =
     (Inl invalid_character, [])"
  by (simp add: request_def getAuthHeader_throws)

lemma request_sends_one:
  "map (\<lambda>sent. (verb sent, url sent, body sent)) (snd (request this endpoint options net)) =
     (if can_authorize this
      then [(case init_method options of None \<Rightarrow> ''GET'' | Some m \<Rightarrow> m,
             BITBUCKET_API_BASE_URL @ endpoint, init_body options)]
      else [])"
proof (cases "can_authorize this")
  case True
  then obtain h where "getAuthHeader this = Inr h" using getAuthHeader_returns by blast
  then show ?thesis using True by (simp add: request_def Let_def)
next
  case False
  then show ?thesis by (simp add: request_cannot_authorize)
qed

lemma request_sends_header:
  "init_headers options = None \<Longrightarrow>
   map (\<lambda>sent. headers sent ''Authorization'') (snd (request this endpoint options net)) =
     (case auth this of
        None \<Rightarrow> [None]
      | Some a \<Rightarrow>
          if encodable a
          then [Some (''Basic '' @ btoa_bytes (username a @ units '':'' @ password a))]
          else [])"
  by (simp add: request_def Let_def getAuthHeader_value map_add_def encodable_def
      split: option.splits)



lemma request_success:
  "ok response \<Longrightarrow> decoded response = Inr r \<Longrightarrow>
   fst (request this endpoint options (\<lambda>_. Responded response)) =
     (if can_authorize this then Inr r
      else Inl invalid_character)"
proof (cases "can_authorize this")
  case True
  assume "ok response" "decoded response = Inr r"
  moreover obtain h where "getAuthHeader this = Inr h" using True getAuthHeader_returns by blast
  ultimately show ?thesis using True by (simp add: request_def Let_def)
next
  case False
  then show ?thesis by (simp add: request_cannot_authorize)
qed

lemma invoke_is_request:
  "\<exists>endpoint options. init_headers options = None \<and>
     (\<forall>this net. invoke this c net = request this endpoint options net)"
  by (cases c) (auto simp: client_defs no_init_def intro!: exI)



lemma no_credentials_can_authorize: "can_authorize (new_BitbucketClient None)"
  by (simp add: can_authorize_def new_BitbucketClient_def)

lemma can_authorize_new: "can_authorize (new_BitbucketClient (Some a)) = encodable a"
  by (simp add: can_authorize_def new_BitbucketClient_def)

text \<open>
  For a fixed outcome of \<open>fetch\<close>, the result of \<open>request\<close> depends on the client only
  through whether it can authorize.
\<close>

lemma request_result_fixed_outcome:
  assumes "can_authorize this = can_authorize this'"
  shows "fst (request this endpoint options (\<lambda>_. out))
           = fst (request this' endpoint' options' (\<lambda>_. out))"
proof (cases "can_authorize this")
  case True
  then obtain h h' where "getAuthHeader this = Inr h" "getAuthHeader this' = Inr h'"
    using assms getAuthHeader_returns by blast
  then show ?thesis by (simp add: request_def Let_def)
next
  case False
  then show ?thesis using assms by (simp add: request_cannot_authorize)
qed

section \<open>The serialised query string reads back as the appended keys\<close>

lemma split_at_join:
  "parts \<noteq> [] \<Longrightarrow> \<forall>p \<in> set parts. d \<notin> set p \<Longrightarrow> split_at d (join [d] parts) = parts"
proof (induction "[d]" parts rule: join.induct)
  case 1
  then show ?case by simp
next
  case (2 x)
  then show ?case by (induction x) (auto split: list.splits)
next
  case (3 x y ys)
  then have ih: "split_at d (join [d] (y # ys)) = y # ys" by simp
  have "d \<notin> set x" using 3 by simp
  then have "split_at d (x @ d # rest) = x # split_at d rest" for rest
    by (induction x) (auto split: list.splits)
  then show ?case using ih by simp
qed

lemma urlencode_char_clean:
  "CHR ''&'' \<notin> set (urlencode_char c) \<and> CHR ''='' \<notin> set (urlencode_char c)"
proof -
  have hex: "hex_chars ! (n mod 16) \<in> set hex_chars" for n
    by (rule nth_mem) (simp add: hex_chars_def)
  have nohex: "CHR ''&'' \<notin> set hex_chars" "CHR ''='' \<notin> set hex_chars"
    by (simp_all add: hex_chars_def)
  have pb: "CHR ''&'' \<notin> set (percent_byte b) \<and> CHR ''='' \<notin> set (percent_byte b)" for b
    using hex [of "b div 16"] hex [of b] nohex by (auto simp: percent_byte_def)
  have un: "CHR ''&'' \<notin> set unreserved_chars" "CHR ''='' \<notin> set unreserved_chars"
    by (simp_all add: unreserved_chars_def)
  show ?thesis
    using pb un by (auto simp: urlencode_char_def Let_def)
qed

lemma urlencode_clean:
  "CHR ''&'' \<notin> set (urlencode s) \<and> CHR ''='' \<notin> set (urlencode s)"
  using urlencode_char_clean by (induction s) (auto simp: urlencode_def)

lemma urlencode_unreserved:
  "set k \<subseteq> set unreserved_chars \<Longrightarrow> urlencode k = k"
  by (induction k) (auto simp: urlencode_def urlencode_char_def)

lemma join_Cons_nonempty: "x \<noteq> [] \<Longrightarrow> join sep (x # xs) \<noteq> []"
  by (cases xs) simp_all

lemma takeWhile_key:
  "CHR ''='' \<notin> set k \<Longrightarrow> takeWhile (\<lambda>x. x \<noteq> CHR ''='') (k @ CHR ''='' # v) = k"
  by (induction k) auto

lemma query_keys_queryString:
  assumes "\<forall>kv \<in> set ps. set (fst kv) \<subseteq> set unreserved_chars"
  shows "query_keys (queryString_of ps) = map fst ps"
proof (cases ps)
  case Nil
  then show ?thesis by (simp add: queryString_of_def params_toString_def query_keys_def)
next
  case (Cons p ps')
  let ?part = "\<lambda>kv. urlencode (fst kv) @ ''='' @ urlencode (snd kv)"
  let ?parts = "map ?part ps"
  have ne: "?parts \<noteq> []" using Cons by simp
  have clean: "\<forall>q \<in> set ?parts. CHR ''&'' \<notin> set q"
    using urlencode_clean by auto
  have nonempty: "join ''&'' ?parts \<noteq> []"
    using Cons join_Cons_nonempty [of "?part p" "''&''" "map ?part ps'"] by simp
  have split: "split_at CHR ''&'' (join ''&'' ?parts) = ?parts"
    using split_at_join [OF ne clean] by simp
  have key: "takeWhile (\<lambda>x. x \<noteq> CHR ''='') (?part kv) = fst kv" if "kv \<in> set ps" for kv
  proof -
    have sub: "set (fst kv) \<subseteq> set unreserved_chars" using assms that by blast
    have "CHR ''='' \<notin> set unreserved_chars" by (simp add: unreserved_chars_def)
    then have "CHR ''='' \<notin> set (fst kv)" using sub by blast
    then show ?thesis using urlencode_unreserved [OF sub] takeWhile_key by simp
  qed
  have "query_keys (queryString_of ps) = map (takeWhile (\<lambda>x. x \<noteq> CHR ''='')) ?parts"
    using nonempty split by (simp add: queryString_of_def params_toString_def query_keys_def)
  also have "\<dots> = map fst ps" using key by simp
  finally show ?thesis .
qed

lemma append_if_string_keys:
  "map fst (append_if_string ps k v) = map fst ps @ (if v = None \<or> v = Some [] then [] else [k])"
  by (simp add: append_if_string_def append_def split: option.splits)

text \<open>An optional number skips its append when it is absent or falsy.\<close>

lemma append_if_number_keys:
  "map fst (append_if_number ps k v) =
     map fst ps @ (if (case v of None \<Rightarrow> True | Some n \<Rightarrow> falsy_number n) then [] else [k])"
  by (simp add: append_if_number_def append_def split: option.splits)

lemma role_name_nonempty: "role_name r \<noteq> []"
  by (cases r) simp_all

lemma state_name_nonempty: "state_name st \<noteq> []"
  by (cases st) simp_all

lemma getRepositories_params_keys:
  "map fst (getRepositories_params ro) =
     (if role ro = None then [] else [''role''])
     @ (if (case page ro of None \<Rightarrow> True | Some n \<Rightarrow> falsy_number n) then [] else [''page''])
     @ (if (case pagelen ro of None \<Rightarrow> True | Some n \<Rightarrow> falsy_number n) then []
        else [''pagelen''])"
  by (cases "role ro")
     (simp_all add: getRepositories_params_def Let_def append_if_string_keys
        append_if_number_keys role_name_nonempty)

lemma getPipelines_params_keys:
  "map fst (getPipelines_params po) =
     (if sort po = None \<or> sort po = Some [] then [] else [''sort''])
     @ (if (case page po of None \<Rightarrow> True | Some n \<Rightarrow> falsy_number n) then [] else [''page''])
     @ (if (case pagelen po of None \<Rightarrow> True | Some n \<Rightarrow> falsy_number n) then []
        else [''pagelen''])"
  by (simp add: getPipelines_params_def Let_def append_if_string_keys append_if_number_keys)

lemma getPullRequests_params_keys:
  "map fst (getPullRequests_params pro) =
     (if state pro = None then [] else [''state''])
     @ (if sort pro = None \<or> sort pro = Some [] then [] else [''sort''])
     @ (if (case page pro of None \<Rightarrow> True | Some n \<Rightarrow> falsy_number n) then [] else [''page''])
     @ (if (case pagelen pro of None \<Rightarrow> True | Some n \<Rightarrow> falsy_number n) then []
        else [''pagelen''])"
  by (cases "state pro")
     (simp_all add: getPullRequests_params_def Let_def append_if_string_keys
        append_if_number_keys state_name_nonempty)

lemma key_names_unreserved:
  "set ''role'' \<subseteq> set unreserved_chars" "set ''page'' \<subseteq> set unreserved_chars"
  "set ''pagelen'' \<subseteq> set unreserved_chars" "set ''sort'' \<subseteq> set unreserved_chars"
  "set ''state'' \<subseteq> set unreserved_chars"
  by (simp_all add: unreserved_chars_def)

lemma keys_unreserved:
  assumes "set (map fst ps) \<subseteq> {''role'', ''page'', ''pagelen'', ''sort'', ''state''}"
  shows "\<forall>kv \<in> set ps. set (fst kv) \<subseteq> set unreserved_chars"
proof
  fix kv assume "kv \<in> set ps"
  then have "fst kv \<in> {''role'', ''page'', ''pagelen'', ''sort'', ''state''}"
    using assms by auto
  then show "set (fst kv) \<subseteq> set unreserved_chars"
    using key_names_unreserved by auto
qed

lemma getRepositories_query_keys:
  "query_keys (queryString_of (getRepositories_params ro)) = map fst (getRepositories_params ro)"
  by (rule query_keys_queryString, rule keys_unreserved) (auto simp: getRepositories_params_keys)

lemma getPipelines_query_keys:
  "query_keys (queryString_of (getPipelines_params po)) = map fst (getPipelines_params po)"
  by (rule query_keys_queryString, rule keys_unreserved) (auto simp: getPipelines_params_keys)

lemma getPullRequests_query_keys:
  "query_keys (queryString_of (getPullRequests_params pro)) = map fst (getPullRequests_params pro)"
  by (rule query_keys_queryString, rule keys_unreserved) (auto simp: getPullRequests_params_keys)

section \<open>Worked requests\<close>

text \<open>
  The model on concrete inputs: a handler exists exactly for the advertised methods; the
  summary that the \<open>getRepositories\<close> callback makes of a repository; \<open>btoa\<close> on
  \<open>user:pass\<close> and on the euro sign; the requests of listing repositories with
  \<open>role = owner\<close> and \<open>pagelen = 10\<close>, of declining pull request 42 of \<open>acme/widgets\<close>, and
  the body of a pull-request creation.
\<close>

lemma handlers_exist_for_advertised:
  "(handle_yaml y a req net \<noteq> None) = (method_of req \<in> set (advertised createMCPServer_yaml))"
  "(handle_json a req net \<noteq> None) = (method_of req \<in> set (advertised createMCPServer_json))"
  "(handle_perRequest a req net \<noteq> None)
     = (method_of req \<in> set (advertised createMCPServer_perRequest))"
  by (cases req; simp add: handle_yaml_def handle_json_def server_defs)+

lemma repository_summary_of_object:
  assumes "map_of kvs ''links'' = Some (JObject ls)"
      and "map_of ls ''html'' = Some (JObject hs)"
  shows "repository_summary (JObject kvs) =
           Inr (JObject (opt_member ''name'' id (map_of kvs ''name'')
                         @ opt_member ''full_name'' id (map_of kvs ''full_name'')
                         @ opt_member ''description'' id (map_of kvs ''description'')
                         @ opt_member ''href'' id (map_of hs ''href'')))"
  using assms by (simp add: repository_summary_def and_then_def read_member_def)

lemma repository_summary_without_links:
  "map_of kvs ''links'' = None \<Longrightarrow>
   repository_summary (JObject kvs) = Inl (cannot_read ''undefined'' ''html'')"
  by (simp add: repository_summary_def and_then_def read_member_def)

lemma btoa_example: "btoa (units ''user:pass'') = Inr ''dXNlcjpwYXNz''"
  by code_simp

lemma btoa_euro: "btoa [0x20AC] = Inl invalid_character"
  by (simp add: btoa_def latin1_def)

lemma list_repositories_scenario:
  "map (\<lambda>sent. (verb sent, url sent, body sent))
     (snd (getRepositories (new_BitbucketClient None)
             \<lparr>page = None, pagelen = Some (Number ''10''), role = Some Owner\<rparr> net))
   = [(''GET'', ''https://api.bitbucket.org/2.0/repositories?role=owner&pagelen=10'', None)]"
proof -
  have "queryString_of (getRepositories_params
          \<lparr>page = None, pagelen = Some (Number ''10''), role = Some Owner\<rparr>)
          = ''?role=owner&pagelen=10''"
    by code_simp
  then show ?thesis
    by (simp add: getRepositories_def request_sends_one no_init_def BITBUCKET_API_BASE_URL_def
        no_credentials_can_authorize)
qed

lemma decline_scenario:
  "map (\<lambda>sent. (verb sent, url sent, body sent))
     (snd (declinePullRequest (new_BitbucketClient None) ''acme'' ''widgets'' (Number ''42'') net))
   = [(''POST'',
       ''https://api.bitbucket.org/2.0/repositories/acme/widgets/pullrequests/42/decline'',
       None)]"
  by (simp add: declinePullRequest_def request_sends_one BITBUCKET_API_BASE_URL_def
      no_credentials_can_authorize)

lemma create_body_example:
  "map body (snd (createPullRequest (new_BitbucketClient None) ''acme'' ''widgets''
      \<lparr>title = ''Fix'', source = \<lparr>branch_name = ''feature'', repository_full_name = None\<rparr>,
       destination = \<lparr>branch_name = ''main'', repository_full_name = None\<rparr>,
       description = None, close_source_branch = Some True, reviewers = None\<rparr> net))
   = [Some ''{\"title\":\"Fix\",\"source\":{\"branch\":{\"name\":\"feature\"}},\"destination\":{\"branch\":{\"name\":\"main\"}},\"close_source_branch\":true}'']"
proof -
  have j: "json_stringify (create_json
      \<lparr>title = ''Fix'', source = \<lparr>branch_name = ''feature'', repository_full_name = None\<rparr>,
       destination = \<lparr>branch_name = ''main'', repository_full_name = None\<rparr>,
       description = None, close_source_branch = Some True, reviewers = None\<rparr>)
     = ''{\"title\":\"Fix\",\"source\":{\"branch\":{\"name\":\"feature\"}},\"destination\":{\"branch\":{\"name\":\"main\"}},\"close_source_branch\":true}''"
    by code_simp
  have "map (\<lambda>sent. (verb sent, url sent, body sent))
          (snd (createPullRequest (new_BitbucketClient None) ''acme'' ''widgets''
      \<lparr>title = ''Fix'', source = \<lparr>branch_name = ''feature'', repository_full_name = None\<rparr>,
       destination = \<lparr>branch_name = ''main'', repository_full_name = None\<rparr>,
       description = None, close_source_branch = Some True, reviewers = None\<rparr> net))
        = [(''POST'', BITBUCKET_API_BASE_URL @ ''/repositories/acme/widgets/pullrequests'',
            Some ''{\"title\":\"Fix\",\"source\":{\"branch\":{\"name\":\"feature\"}},\"destination\":{\"branch\":{\"name\":\"main\"}},\"close_source_branch\":true}'')]"
    by (simp add: createPullRequest_def request_sends_one no_credentials_can_authorize j)
  then show ?thesis
    by (cases "snd (createPullRequest (new_BitbucketClient None) ''acme'' ''widgets''
      \<lparr>title = ''Fix'', source = \<lparr>branch_name = ''feature'', repository_full_name = None\<rparr>,
       destination = \<lparr>branch_name = ''main'', repository_full_name = None\<rparr>,
       description = None, close_source_branch = Some True, reviewers = None\<rparr> net)") auto
qed

lemma json_numbers_example:
  "json_stringify (JArray [JNumber (Number ''1e+21''), JNumber (Number ''0.5''),
                           JNumber (Number ''NaN'')]) = ''[1e+21,0.5,null]''"
  by code_simp

section \<open>Error handling of the client\<close>





section \<open>The registrations of the servers\<close>

text \<open>
  C3, as stated, fails on the YAML server: it advertises \<open>bitbucket/grantRepositoryAccess\<close>,
  which is not one of the eleven operations of the catalog, and the registration of that
  name invokes a member that the client does not have.
\<close>

theorem catalog_counterexample:
  "''bitbucket/grantRepositoryAccess'' \<in> set (advertised createMCPServer_yaml)
   \<and> ''bitbucket/grantRepositoryAccess'' \<notin> set operation_catalog
   \<and> tool ''grantRepositoryAccess'' ''bitbucket/grantRepositoryAccess'' ''grantRepositoryAccess''
       \<in> set (tools createMCPServer_yaml)
   \<and> ''grantRepositoryAccess'' \<notin> set client_methods"
  by (simp add: server_defs operation_catalog_def client_methods_def)

text \<open>
  C3, amended. In each of the three servers the registered method names are pairwise
  distinct and are, in order, exactly the advertised names, so every advertised name has
  exactly one registration; the tool names of the YAML and JSON servers are distinct too.
  Every registration of one of the eleven catalog operations invokes a method that the
  client has. The JSON and the per-request server advertise exactly the catalog; the YAML
  server advertises the catalog and, after it, \<open>bitbucket/grantRepositoryAccess\<close> and
  \<open>bitbucket/getWorkspaceMembers\<close>.
\<close>

theorem registrations_match_advertised_methods:
  "distinct (map method_literal (tools createMCPServer_yaml))
   \<and> distinct (map tool_name (tools createMCPServer_yaml))
   \<and> map method_literal (tools createMCPServer_yaml) = advertised createMCPServer_yaml
   \<and> advertised createMCPServer_yaml
       = operation_catalog @ [''bitbucket/grantRepositoryAccess'', ''bitbucket/getWorkspaceMembers'']
   \<and> list_all (\<lambda>d. client_member d \<in> set client_methods)
        (filter (\<lambda>d. method_literal d \<in> set operation_catalog) (tools createMCPServer_yaml))
   \<and> distinct (map method_literal (tools createMCPServer_json))
   \<and> distinct (map tool_name (tools createMCPServer_json))
   \<and> map method_literal (tools createMCPServer_json) = advertised createMCPServer_json
   \<and> advertised createMCPServer_json = operation_catalog
   \<and> list_all (\<lambda>d. client_member d \<in> set client_methods) (tools createMCPServer_json)
   \<and> distinct (map method_literal (tools createMCPServer_perRequest))
   \<and> map method_literal (tools createMCPServer_perRequest) = advertised createMCPServer_perRequest
   \<and> advertised createMCPServer_perRequest = operation_catalog
   \<and> list_all (\<lambda>d. client_member d \<in> set client_methods) (tools createMCPServer_perRequest)
   \<and> distinct operation_catalog \<and> length operation_catalog = 11"
  by (simp add: server_defs operation_catalog_def client_methods_def)

section \<open>What the handlers return\<close>




section \<open>Requests of the list operations\<close>

text \<open>
  C5 (the code departs from the claim). A \<open>getRepositories\<close> request that supplies the
  workspace \<open>acme\<close> makes the JSON and the YAML server send a \<open>GET\<close> to \<open>/repositories\<close>
  under the API root, not to \<open>/repositories/acme\<close>: the handler hands the workspace to the
  client, and the client does not read it. (With credentials that are not encodable
  nothing is sent at all.)
\<close>

theorem workspace_is_dropped:
  "map_option (\<lambda>r. map (\<lambda>sent. (verb sent, url sent)) (snd r))
     (handle_json a (GetRepositories (Some ''acme'') None None None) net)
     = Some (if encodable a then [(''GET'', ''https://api.bitbucket.org/2.0/repositories'')]
             else [])
   \<and> map_option (\<lambda>r. map (\<lambda>sent. (verb sent, url sent)) (snd r))
     (handle_yaml y a (GetRepositories (Some ''acme'') None None None) net)
     = Some (if encodable a then [(''GET'', ''https://api.bitbucket.org/2.0/repositories'')]
             else [])"
proof -
  have q: "queryString_of (getRepositories_params
             \<lparr>page = None, pagelen = None, role = None, workspace = Some ''acme''\<rparr>) = []"
    by (simp add: getRepositories_params_def append_if_string_def append_if_number_def
        queryString_of_def params_toString_def)
  have "map (\<lambda>sent. (verb sent, url sent))
          (snd (getRepositories (new_BitbucketClient (Some a))
                  \<lparr>page = None, pagelen = None, role = None, workspace = Some ''acme''\<rparr> net))
        = map (\<lambda>t. (fst t, fst (snd t)))
            (map (\<lambda>sent. (verb sent, url sent, body sent))
              (snd (getRepositories (new_BitbucketClient (Some a))
                  \<lparr>page = None, pagelen = None, role = None, workspace = Some ''acme''\<rparr> net)))"
    by simp
  also have "\<dots> = (if encodable a
                    then [(''GET'', ''https://api.bitbucket.org/2.0/repositories'')] else [])"
    unfolding getRepositories_def Let_def request_sends_one
    by (simp add: q no_init_def BITBUCKET_API_BASE_URL_def can_authorize_new)
  finally show ?thesis
    by (simp add: handle_json_def handle_yaml_def then_io_def)
qed

text \<open>
  C6. For each list operation and every options record, the request's URL ends in the
  query string built from the options, and every key found in that query string belongs to
  an optional member that was supplied with a defined value. (A client that cannot
  authorize sends no request.)
\<close>

theorem query_string_has_only_supplied_keys:
  "map url (snd (getRepositories this ro net)) =
     (if can_authorize this
      then [BITBUCKET_API_BASE_URL @ ''/repositories'' @ queryString_of (getRepositories_params ro)]
      else [])
   \<and> set (query_keys (queryString_of (getRepositories_params ro)))
       \<subseteq> set (supplied ''role'' (role ro) @ supplied ''page'' (page ro)
                @ supplied ''pagelen'' (pagelen ro))
   \<and> map url (snd (getPipelines this w s po net)) =
       (if can_authorize this
        then [BITBUCKET_API_BASE_URL @ ''/repositories/'' @ w @ ''/'' @ s @ ''/pipelines''
                @ queryString_of (getPipelines_params po)]
        else [])
   \<and> set (query_keys (queryString_of (getPipelines_params po)))
       \<subseteq> set (supplied ''sort'' (sort po) @ supplied ''page'' (page po)
                @ supplied ''pagelen'' (pagelen po))
   \<and> map url (snd (getPullRequests this w s pro net)) =
       (if can_authorize this
        then [BITBUCKET_API_BASE_URL @ ''/repositories/'' @ w @ ''/'' @ s @ ''/pullrequests''
                @ queryString_of (getPullRequests_params pro)]
        else [])
   \<and> set (query_keys (queryString_of (getPullRequests_params pro)))
       \<subseteq> set (supplied ''state'' (state pro) @ supplied ''sort'' (sort pro)
                @ supplied ''page'' (page pro) @ supplied ''pagelen'' (pagelen pro))"
proof -
  have u: "map url (snd (request this endpoint options net)) =
             (if can_authorize this then [BITBUCKET_API_BASE_URL @ endpoint] else [])"
    for endpoint options
  proof -
    have "map url (snd (request this endpoint options net))
            = map (\<lambda>t. fst (snd t))
                (map (\<lambda>sent. (verb sent, url sent, body sent))
                   (snd (request this endpoint options net)))"
      by simp
    then show ?thesis unfolding request_sends_one by simp
  qed
  have u1: "map url (snd (getRepositories this ro net)) =
     (if can_authorize this
      then [BITBUCKET_API_BASE_URL @ ''/repositories'' @ queryString_of (getRepositories_params ro)]
      else [])"
    by (simp add: getRepositories_def u)
  have u2: "map url (snd (getPipelines this w s po net)) =
       (if can_authorize this
        then [BITBUCKET_API_BASE_URL @ ''/repositories/'' @ w @ ''/'' @ s @ ''/pipelines''
                @ queryString_of (getPipelines_params po)]
        else [])"
    by (simp add: getPipelines_def u)
  have u3: "map url (snd (getPullRequests this w s pro net)) =
       (if can_authorize this
        then [BITBUCKET_API_BASE_URL @ ''/repositories/'' @ w @ ''/'' @ s @ ''/pullrequests''
                @ queryString_of (getPullRequests_params pro)]
        else [])"
    by (simp add: getPullRequests_def u)
  have k1: "set (query_keys (queryString_of (getRepositories_params ro)))
       \<subseteq> set (supplied ''role'' (role ro) @ supplied ''page'' (page ro)
                @ supplied ''pagelen'' (pagelen ro))"
    by (auto simp: getRepositories_query_keys getRepositories_params_keys supplied_def
        split: if_splits option.splits)
  have k2: "set (query_keys (queryString_of (getPipelines_params po)))
       \<subseteq> set (supplied ''sort'' (sort po) @ supplied ''page'' (page po)
                @ supplied ''pagelen'' (pagelen po))"
    by (auto simp: getPipelines_query_keys getPipelines_params_keys supplied_def
        split: if_splits option.splits)
  have k3: "set (query_keys (queryString_of (getPullRequests_params pro)))
       \<subseteq> set (supplied ''state'' (state pro) @ supplied ''sort'' (sort pro)
                @ supplied ''page'' (page pro) @ supplied ''pagelen'' (pagelen pro))"
    by (auto simp: getPullRequests_query_keys getPullRequests_params_keys supplied_def
        split: if_splits option.splits)
  show ?thesis using u1 u2 u3 k1 k2 k3 by blast
qed

section \<open>The \<open>Authorization\<close> header\<close>

text \<open>
  C7, as stated, fails for a client constructed without credentials: its request has no
  \<open>Authorization\<close> header.
\<close>

theorem no_credentials_no_header:
  "map (\<lambda>sent. headers sent ''Authorization'')
     (snd (getRepository (new_BitbucketClient None) ''acme'' ''widgets''
             (\<lambda>_. NetworkError ''fetch failed'')))
   = [None]"
  by (simp add: getRepository_def request_sends_header new_BitbucketClient_def no_init_def)

text \<open>
  C7, amended. A client that holds encodable credentials sends, for every operation, one
  request whose \<open>Authorization\<close> header is \<open>Basic\<close>, a space, and the Base64 encoding of
  \<open>username:password\<close>. A client constructed without credentials sends one request
  without an \<open>Authorization\<close> header. A client whose \<open>username:password\<close> has a code unit
  above 255 sends no request, because \<open>btoa\<close> throws.
\<close>

theorem authorization_header:
  "map (\<lambda>sent. headers sent ''Authorization'') (snd (invoke this c net)) =
     (case auth this of
        None \<Rightarrow> [None]
      | Some a \<Rightarrow>
          if encodable a
          then [Some (''Basic '' @ btoa_bytes (username a @ units '':'' @ password a))]
          else [])"
proof -
  obtain endpoint options where h: "init_headers options = None"
    and r: "\<And>this net. invoke this c net = request this endpoint options net"
    using invoke_is_request [of c] by blast
  show ?thesis unfolding r by (rule request_sends_header [OF h])
qed

section \<open>Declining a pull request\<close>



section \<open>Credentials and the envelope\<close>

text \<open>
  C9, as stated, fails: with the same 200 response, the per-request server answers the
  credentials \<open>u\<close>/\<open>p\<close> with the result and the credentials \<open>\<euro>\<close>/\<open>p\<close> with the error that
  \<open>btoa\<close> throws.
\<close>

theorem envelope_depends_on_encodability:
  "map_option fst
     (handle_perRequest \<lparr>username = units ''u'', password = units ''p''\<rparr>
        (GetRepository ''acme'' ''widgets'')
        (\<lambda>_. Responded \<lparr>status = 200, statusText = ''OK'', decoded = Inr JNull\<rparr>))
     = Some (Inr \<lparr>result = JNull\<rparr>)
   \<and> map_option fst
     (handle_perRequest \<lparr>username = [0x20AC], password = units ''p''\<rparr>
        (GetRepository ''acme'' ''widgets'')
        (\<lambda>_. Responded \<lparr>status = 200, statusText = ''OK'', decoded = Inr JNull\<rparr>))
     = Some (Inl invalid_character)"
proof -
  have e1: "encodable \<lparr>username = units ''u'', password = units ''p''\<rparr>"
    by (simp add: encodable_def latin1_def units_def)
  have e2: "\<not> encodable \<lparr>username = [0x20AC], password = units ''p''\<rparr>"
    by (simp add: encodable_def latin1_def)
  have k: "ok \<lparr>status = 200, statusText = ''OK'', decoded = Inr JNull\<rparr>"
    by (simp add: ok_def)
  show ?thesis
    using e1 e2
    by (simp add: then_io_def and_then_def getRepository_def can_authorize_new
        request_success [OF k])
qed

text \<open>
  C9, amended. No handler result contains the credentials: for every request, every
  server and every fixed outcome of the remote call, the handler's result (the envelope, or
  the error it fails with) is the same for any two credential pairs that are both
  encodable or both not. The only thing the result tells about the credentials
  is whether \<open>btoa\<close> accepted them.
\<close>

theorem credentials_do_not_reach_the_envelope:
  assumes "encodable a1 = encodable a2"
  shows "map_option fst (handle_yaml y a1 req (\<lambda>_. out))
           = map_option fst (handle_yaml y a2 req (\<lambda>_. out))
         \<and> map_option fst (handle_json a1 req (\<lambda>_. out))
           = map_option fst (handle_json a2 req (\<lambda>_. out))
         \<and> map_option fst (handle_perRequest a1 req (\<lambda>_. out))
           = map_option fst (handle_perRequest a2 req (\<lambda>_. out))"
proof -
  have c: "can_authorize (new_BitbucketClient (Some a1))
             = can_authorize (new_BitbucketClient (Some a2))"
    using assms by (simp add: can_authorize_new)
  have eq: "fst (request (new_BitbucketClient (Some a1)) endpoint options (\<lambda>_. out))
              = fst (request (new_BitbucketClient (Some a2)) endpoint options (\<lambda>_. out))"
    for endpoint options
    by (rule request_result_fixed_outcome [OF c])
  have y: "map_option fst (handle_yaml y a1 req (\<lambda>_. out))
             = map_option fst (handle_yaml y a2 req (\<lambda>_. out))"
    by (cases req) (simp_all add: handle_yaml_def then_io_def client_defs eq)
  have j: "map_option fst (handle_json a1 req (\<lambda>_. out))
             = map_option fst (handle_json a2 req (\<lambda>_. out))"
    by (cases req) (simp_all add: handle_json_def then_io_def client_defs eq)
  have p: "map_option fst (handle_perRequest a1 req (\<lambda>_. out))
             = map_option fst (handle_perRequest a2 req (\<lambda>_. out))"
    by (cases req) (simp_all add: then_io_def client_defs eq)
  show ?thesis using y j p by blast
qed

text \<open>
  Witness for C9: the credentials \<open>u\<close>/\<open>p\<close> and \<open>alice\<close>/\<open>secret\<close>, both encodable, on
  \<open>getRepository\<close> answered with 200.
\<close>

theorem credentials_do_not_reach_the_envelope_witness:
  "encodable \<lparr>username = units ''u'', password = units ''p''\<rparr>
     = encodable \<lparr>username = units ''alice'', password = units ''secret''\<rparr>
   \<and> map_option fst
       (handle_yaml json_stringify \<lparr>username = units ''u'', password = units ''p''\<rparr>
          (GetRepository ''acme'' ''widgets'')
          (\<lambda>_. Responded \<lparr>status = 200, statusText = ''OK'', decoded = Inr JNull\<rparr>))
     = map_option fst
       (handle_yaml json_stringify \<lparr>username = units ''alice'', password = units ''secret''\<rparr>
          (GetRepository ''acme'' ''widgets'')
          (\<lambda>_. Responded \<lparr>status = 200, statusText = ''OK'', decoded = Inr JNull\<rparr>))
   \<and> map_option fst
       (handle_json \<lparr>username = units ''u'', password = units ''p''\<rparr>
          (GetRepository ''acme'' ''widgets'')
          (\<lambda>_. Responded \<lparr>status = 200, statusText = ''OK'', decoded = Inr JNull\<rparr>))
     = map_option fst
       (handle_json \<lparr>username = units ''alice'', password = units ''secret''\<rparr>
          (GetRepository ''acme'' ''widgets'')
          (\<lambda>_. Responded \<lparr>status = 200, statusText = ''OK'', decoded = Inr JNull\<rparr>))
   \<and> map_option fst
       (handle_perRequest \<lparr>username = units ''u'', password = units ''p''\<rparr>
          (GetRepository ''acme'' ''widgets'')
          (\<lambda>_. Responded \<lparr>status = 200, statusText = ''OK'', decoded = Inr JNull\<rparr>))
     = map_option fst
       (handle_perRequest \<lparr>username = units ''alice'', password = units ''secret''\<rparr>
          (GetRepository ''acme'' ''widgets'')
          (\<lambda>_. Responded \<lparr>status = 200, statusText = ''OK'', decoded = Inr JNull\<rparr>))"
proof -
  let ?a1 = "\<lparr>username = units ''u'', password = units ''p''\<rparr>"
  let ?a2 = "\<lparr>username = units ''alice'', password = units ''secret''\<rparr>"
  have e: "encodable ?a1 = encodable ?a2"
    by (simp add: encodable_def latin1_def units_def)
  show ?thesis
    using e credentials_do_not_reach_the_envelope [OF e, of json_stringify
        "GetRepository ''acme'' ''widgets''"
        "Responded \<lparr>status = 200, statusText = ''OK'', decoded = Inr JNull\<rparr>"]
    by blast
qed

section \<open>Page parameters of value zero\<close>

text \<open>
  C10. In every list operation a \<open>page\<close> or \<open>pagelen\<close> supplied as 0 is treated as if it
  were absent: the call is the same call, and the key is not in the query string.
\<close>

theorem zero_page_is_absent:
  "getRepositories this (ro\<lparr>page := Some (Number ''0'')\<rparr>) net
       = getRepositories this (ro\<lparr>page := None\<rparr>) net
   \<and> getRepositories this (ro\<lparr>pagelen := Some (Number ''0'')\<rparr>) net
       = getRepositories this (ro\<lparr>pagelen := None\<rparr>) net
   \<and> getPipelines this w s (po\<lparr>page := Some (Number ''0'')\<rparr>) net
       = getPipelines this w s (po\<lparr>page := None\<rparr>) net
   \<and> getPipelines this w s (po\<lparr>pagelen := Some (Number ''0'')\<rparr>) net
       = getPipelines this w s (po\<lparr>pagelen := None\<rparr>) net
   \<and> getPullRequests this w s (pro\<lparr>page := Some (Number ''0'')\<rparr>) net
       = getPullRequests this w s (pro\<lparr>page := None\<rparr>) net
   \<and> getPullRequests this w s (pro\<lparr>pagelen := Some (Number ''0'')\<rparr>) net
       = getPullRequests this w s (pro\<lparr>pagelen := None\<rparr>) net
   \<and> ''page'' \<notin> set (query_keys (queryString_of
                         (getRepositories_params (ro\<lparr>page := Some (Number ''0'')\<rparr>))))
   \<and> ''pagelen'' \<notin> set (query_keys (queryString_of
                            (getRepositories_params (ro\<lparr>pagelen := Some (Number ''0'')\<rparr>))))
   \<and> ''page'' \<notin> set (query_keys (queryString_of
                         (getPipelines_params (po\<lparr>page := Some (Number ''0'')\<rparr>))))
   \<and> ''pagelen'' \<notin> set (query_keys (queryString_of
                            (getPipelines_params (po\<lparr>pagelen := Some (Number ''0'')\<rparr>))))
   \<and> ''page'' \<notin> set (query_keys (queryString_of
                         (getPullRequests_params (pro\<lparr>page := Some (Number ''0'')\<rparr>))))
   \<and> ''pagelen'' \<notin> set (query_keys (queryString_of
                            (getPullRequests_params (pro\<lparr>pagelen := Some (Number ''0'')\<rparr>))))"
proof -
  have z: "falsy_number (Number ''0'')" by (simp add: falsy_number_def)
  have same:
    "getRepositories this (ro\<lparr>page := Some (Number ''0'')\<rparr>) net
       = getRepositories this (ro\<lparr>page := None\<rparr>) net"
    "getRepositories this (ro\<lparr>pagelen := Some (Number ''0'')\<rparr>) net
       = getRepositories this (ro\<lparr>pagelen := None\<rparr>) net"
    "getPipelines this w s (po\<lparr>page := Some (Number ''0'')\<rparr>) net
       = getPipelines this w s (po\<lparr>page := None\<rparr>) net"
    "getPipelines this w s (po\<lparr>pagelen := Some (Number ''0'')\<rparr>) net
       = getPipelines this w s (po\<lparr>pagelen := None\<rparr>) net"
    "getPullRequests this w s (pro\<lparr>page := Some (Number ''0'')\<rparr>) net
       = getPullRequests this w s (pro\<lparr>page := None\<rparr>) net"
    "getPullRequests this w s (pro\<lparr>pagelen := Some (Number ''0'')\<rparr>) net
       = getPullRequests this w s (pro\<lparr>pagelen := None\<rparr>) net"
    by (simp_all add: getRepositories_def getRepositories_params_def getPipelines_def
        getPipelines_params_def getPullRequests_def getPullRequests_params_def
        append_if_number_def z)
  have omitted:
    "''page'' \<notin> set (query_keys (queryString_of
                         (getRepositories_params (ro\<lparr>page := Some (Number ''0'')\<rparr>))))"
    "''pagelen'' \<notin> set (query_keys (queryString_of
                            (getRepositories_params (ro\<lparr>pagelen := Some (Number ''0'')\<rparr>))))"
    "''page'' \<notin> set (query_keys (queryString_of
                         (getPipelines_params (po\<lparr>page := Some (Number ''0'')\<rparr>))))"
    "''pagelen'' \<notin> set (query_keys (queryString_of
                            (getPipelines_params (po\<lparr>pagelen := Some (Number ''0'')\<rparr>))))"
    "''page'' \<notin> set (query_keys (queryString_of
                         (getPullRequests_params (pro\<lparr>page := Some (Number ''0'')\<rparr>))))"
    "''pagelen'' \<notin> set (query_keys (queryString_of
                            (getPullRequests_params (pro\<lparr>pagelen := Some (Number ''0'')\<rparr>))))"
    by (simp_all add: getRepositories_query_keys getRepositories_params_keys
        getPipelines_query_keys getPipelines_params_keys
        getPullRequests_query_keys getPullRequests_params_keys z)
  show ?thesis using same omitted by blast
qed

end
